theory Spec2Isabelle
  imports Main "HOL-Library.Word"
begin

section \<open>The native bridge \<open>opencv_jni.cpp\<close>\<close>

text \<open>
  The file exports two JNI entry points, \<open>getOpenCVVersion\<close> and \<open>convertToGray\<close>.
  Both are pass-throughs to the vision library, which is not part of the repository:
  the library is a parameter of the model (the record \<open>opencv\<close> below), and so every
  theorem that needs more of the library than the bridge's own code says so in a
  hypothesis on that parameter.
\<close>

subsection \<open>JNI and C++ values\<close>

type_synonym jlong = "64 word"
type_synonym jboolean = "8 word"
type_synonym jstring = string
type_synonym byte = "8 word"

definition JNI_TRUE :: jboolean where
  "JNI_TRUE = 1"

definition JNI_FALSE :: jboolean where
  "JNI_FALSE = 0"

text \<open>
  A \<open>std::string\<close> is a sequence of bytes that may hold NUL. \<open>c_str()\<close> hands out
  the NUL-terminated array, and its readers (\<open>%s\<close>, \<open>NewStringUTF\<close>) stop at the first
  NUL. A \<open>const char *\<close> is modelled by the bytes before its terminator.
\<close>

definition c_str :: "string \<Rightarrow> string" where
  "c_str s = takeWhile (\<lambda>c. c \<noteq> CHR 0x00) s"

text \<open>
  \<open>env->NewStringUTF(bytes)\<close>: the Java string is represented by the bytes it was
  built from. A failure of the virtual machine to allocate it is outside the model.
\<close>

definition NewStringUTF :: "string \<Rightarrow> jstring" where
  "NewStringUTF bytes = bytes"

subsection \<open>Image buffers and the heap of \<open>cv::Mat\<close> objects\<close>

text \<open>
  A handle is the address of a \<open>cv::Mat\<close>. The heap maps the addresses that hold a
  live \<open>Mat\<close> to its value: the shape and the interleaved 8-bit elements, row by row.
  A \<open>Mat\<close> holds its elements by value here, so two addresses are two buffers: the
  sharing of one pixel buffer by two headers is not modelled.
\<close>

record Mat =
  rows :: nat
  cols :: nat
  channels :: nat
  data :: "byte list"

type_synonym heap = "jlong \<rightharpoonup> Mat"

subsection \<open>The library, as the bridge sees it\<close>

datatype ColorConversionCodes =
    COLOR_BGR2GRAY
  | COLOR_RGB2GRAY
  | COLOR_BGRA2GRAY
  | COLOR_RGBA2GRAY

text \<open>
  What a C++ call can throw, as far as the handler \<open>catch (cv::Exception &e)\<close> can
  tell: an object of class \<open>cv::Exception\<close> (or of a class derived from it), with the text
  that \<open>what()\<close> returns, or an object of any other type.
\<close>

datatype cpp_exception =
    CvException string
  | OtherException string

text \<open>
  A library call returns, throws, or faults (undefined behaviour, such as an access
  through an address that holds no \<open>Mat\<close>: the process does not go on).
\<close>

datatype lib_outcome = Normal | Throws cpp_exception | Fault

text \<open>
  \<open>cv::getVersionString()\<close> and
  \<open>cv::cvtColor(InputArray src, OutputArray dst, int code, int dstCn = 0)\<close>.
  The conversion gets the heap and the two addresses, and returns the heap it leaves.
\<close>

record opencv =
  getVersionString :: string
  cvtColor :: "heap \<Rightarrow> jlong \<Rightarrow> jlong \<Rightarrow> ColorConversionCodes \<Rightarrow> int \<Rightarrow> heap \<times> lib_outcome"

subsection \<open>The diagnostic log and the trace of a call\<close>

datatype android_LogPriority = ANDROID_LOG_INFO | ANDROID_LOG_ERROR

text \<open>An entry is what \<open>__android_log_print\<close> was given: priority, tag, format, arguments.\<close>

record log_entry =
  prio :: android_LogPriority
  tag :: string
  fmt :: string
  args :: "string list"

datatype lib_call =
    Call_getVersionString
  | Call_cvtColor jlong jlong ColorConversionCodes int

datatype event = Logged log_entry | Called lib_call

text \<open>
  The state a call of the bridge can touch: the heap of \<open>Mat\<close> objects, and the
  sequence of log entries and library calls so far, in the order they happened.
\<close>

record world =
  mats :: heap
  trace :: "event list"

fun logcat :: "event list \<Rightarrow> log_entry list" where
  "logcat [] = []"
| "logcat (Logged e # es) = e # logcat es"
| "logcat (Called c # es) = logcat es"

fun lib_calls :: "event list \<Rightarrow> lib_call list" where
  "lib_calls [] = []"
| "lib_calls (Logged e # es) = lib_calls es"
| "lib_calls (Called c # es) = c # lib_calls es"

text \<open>
  The text of an entry: each \<open>%s\<close> of the format replaced by the next argument. The
  bridge uses no other conversion.
\<close>

fun vformat :: "string \<Rightarrow> string list \<Rightarrow> string" where
  "vformat (c # d # rest) (a # as) =
     (if c = CHR ''%'' \<and> d = CHR ''s'' then a @ vformat rest as
      else c # vformat (d # rest) (a # as))"
| "vformat f as = f"

definition entry_text :: "log_entry \<Rightarrow> string" where
  "entry_text e = vformat (fmt e) (args e)"

definition TAG :: string where
  "TAG = ''OpenCV_JNI''"

definition android_log_print ::
  "android_LogPriority \<Rightarrow> string \<Rightarrow> string \<Rightarrow> string list \<Rightarrow> world \<Rightarrow> world" where
  "android_log_print p t f as w =
     w\<lparr>trace := trace w @ [Logged \<lparr>prio = p, tag = t, fmt = f, args = as\<rparr>]\<rparr>"

definition LOGI :: "string \<Rightarrow> string list \<Rightarrow> world \<Rightarrow> world" where
  "LOGI f as w = android_log_print ANDROID_LOG_INFO TAG f as w"

definition LOGE :: "string \<Rightarrow> string list \<Rightarrow> world \<Rightarrow> world" where
  "LOGE f as w = android_log_print ANDROID_LOG_ERROR TAG f as w"

text \<open>The two library calls, each recorded in the trace.\<close>

definition call_getVersionString :: "opencv \<Rightarrow> world \<Rightarrow> world \<times> string" where
  "call_getVersionString cv w =
     (w\<lparr>trace := trace w @ [Called Call_getVersionString]\<rparr>, getVersionString cv)"

definition call_cvtColor ::
  "opencv \<Rightarrow> jlong \<Rightarrow> jlong \<Rightarrow> ColorConversionCodes \<Rightarrow> int \<Rightarrow> world \<Rightarrow> world \<times> lib_outcome" where
  "call_cvtColor cv src dst code dstCn w =
     (case cvtColor cv (mats w) src dst code dstCn of
        (h, r) \<Rightarrow> (w\<lparr>mats := h, trace := trace w @ [Called (Call_cvtColor src dst code dstCn)]\<rparr>, r))"

subsection \<open>\<open>Java_com_hsl_videstabilization_util_OpenCVJNI_getOpenCVVersion\<close>\<close>

definition getOpenCVVersion :: "opencv \<Rightarrow> world \<Rightarrow> world \<times> jstring" where
  "getOpenCVVersion cv w =
     (let w1 = LOGI ''Getting OpenCV version'' [] w;
          (w2, version) = call_getVersionString cv w1;
          w3 = LOGI ''OpenCV version: %s'' [c_str version] w2
      in (w3, NewStringUTF (c_str version)))"

subsection \<open>\<open>Java_com_hsl_videstabilization_util_OpenCVJNI_convertToGray\<close>\<close>

text \<open>
  How a call of the entry point ends: it returns a value, an exception leaves it
  uncaught, or the process faulted inside it.
\<close>

datatype 'a outcome = Returned 'a | Propagated cpp_exception | Crashed

text \<open>
  The body of the \<open>try\<close> block casts the two numbers to \<open>Mat\<close> references and calls
  the library; the handler takes \<open>cv::Exception\<close> only.
\<close>

definition convertToGray :: "opencv \<Rightarrow> world \<Rightarrow> jlong \<Rightarrow> jlong \<Rightarrow> world \<times> jboolean outcome" where
  "convertToGray cv w matAddrRgba matAddrGray =
     (case call_cvtColor cv matAddrRgba matAddrGray COLOR_RGBA2GRAY 0 w of
        (w1, Normal) \<Rightarrow> (w1, Returned JNI_TRUE)
      | (w1, Throws (CvException what)) \<Rightarrow>
          (LOGE ''OpenCV error: %s'' [what] w1, Returned JNI_FALSE)
      | (w1, Throws (OtherException x)) \<Rightarrow> (w1, Propagated (OtherException x))
      | (w1, Fault) \<Rightarrow> (w1, Crashed))"

subsection \<open>The vocabulary of the claims\<close>

text \<open>
  A source the conversion is meant for: a non-empty image of four interleaved 8-bit
  channels. A destination that fits it: one channel, the same shape.
\<close>

definition is_rgba :: "Mat \<Rightarrow> bool" where
  "is_rgba m \<longleftrightarrow>
     channels m = 4 \<and> 0 < rows m \<and> 0 < cols m \<and> length (data m) = rows m * cols m * 4"

definition fits_gray :: "Mat \<Rightarrow> Mat \<Rightarrow> bool" where
  "fits_gray m d \<longleftrightarrow>
     channels d = 1 \<and> rows d = rows m \<and> cols d = cols m \<and> length (data d) = rows d * cols d"

text \<open>
  A luma transform maps the first three channels of a pixel to one intensity; the
  fourth channel is not an argument. \<open>gray_data\<close> applies it pixel by pixel to
  interleaved four-channel data.
\<close>

fun gray_data :: "(byte \<Rightarrow> byte \<Rightarrow> byte \<Rightarrow> byte) \<Rightarrow> byte list \<Rightarrow> byte list" where
  "gray_data luma (c0 # c1 # c2 # c3 # rest) = luma c0 c1 c2 # gray_data luma rest"
| "gray_data luma rest = []"

text \<open>Pixels as (red, green, blue, alpha), and their bytes in the two channel orders.\<close>

type_synonym pixel = "byte \<times> byte \<times> byte \<times> byte"

fun rgba_bytes :: "pixel list \<Rightarrow> byte list" where
  "rgba_bytes [] = []"
| "rgba_bytes ((r, g, b, a) # ps) = r # g # b # a # rgba_bytes ps"

fun bgra_bytes :: "pixel list \<Rightarrow> byte list" where
  "bgra_bytes [] = []"
| "bgra_bytes ((r, g, b, a) # ps) = b # g # r # a # bgra_bytes ps"

text \<open>
  What the bridge relies on the library for. The contract of the conversion in mode
  \<open>COLOR_RGBA2GRAY\<close>: on a source it is meant for and a destination that fits, it
  returns normally, having written the luma transform of the source into the
  destination and nothing else.
\<close>

definition cvtColor_contract :: "opencv \<Rightarrow> (byte \<Rightarrow> byte \<Rightarrow> byte \<Rightarrow> byte) \<Rightarrow> bool" where
  "cvtColor_contract cv luma \<longleftrightarrow>
     (\<forall>h src dst m d.
        h src = Some m \<and> h dst = Some d \<and> is_rgba m \<and> fits_gray m d \<longrightarrow>
        cvtColor cv h src dst COLOR_RGBA2GRAY 0 =
          (h(dst \<mapsto> d\<lparr>data := gray_data luma (data m)\<rparr>), Normal))"

text \<open>The frame of the conversion: it writes through its output argument only.\<close>

definition cvtColor_writes_dst_only :: "opencv \<Rightarrow> bool" where
  "cvtColor_writes_dst_only cv \<longleftrightarrow>
     (\<forall>h src dst code dstCn x. x \<noteq> dst \<longrightarrow> fst (cvtColor cv h src dst code dstCn) x = h x)"

subsection \<open>Library instances to run the bridge on\<close>

text \<open>
  \<open>ocv\<close> behaves as the library documents its conversion to gray: the weights
  0.299, 0.587 and 0.114 in 14-bit fixed point, an exception for an empty source or a
  source that has not four channels, and a destination that is (re)created to the
  shape of the result whatever it held before. An address with no \<open>Mat\<close> faults.
\<close>

definition ocv_luma :: "byte \<Rightarrow> byte \<Rightarrow> byte \<Rightarrow> byte" where
  "ocv_luma r g b = of_nat ((4899 * unat r + 9617 * unat g + 1868 * unat b + 8192) div 16384)"

definition ocv_gray :: "ColorConversionCodes \<Rightarrow> byte list \<Rightarrow> byte list" where
  "ocv_gray code bytes =
     (case code of
        COLOR_BGR2GRAY \<Rightarrow> gray_data (\<lambda>c0 c1 c2. ocv_luma c2 c1 c0) bytes
      | COLOR_RGB2GRAY \<Rightarrow> gray_data ocv_luma bytes
      | COLOR_BGRA2GRAY \<Rightarrow> gray_data (\<lambda>c0 c1 c2. ocv_luma c2 c1 c0) bytes
      | COLOR_RGBA2GRAY \<Rightarrow> gray_data ocv_luma bytes)"

definition ocv_cvtColor ::
  "heap \<Rightarrow> jlong \<Rightarrow> jlong \<Rightarrow> ColorConversionCodes \<Rightarrow> int \<Rightarrow> heap \<times> lib_outcome" where
  "ocv_cvtColor h src dst code dstCn =
     (case h src of
        None \<Rightarrow> (h, Fault)
      | Some m \<Rightarrow>
          (case h dst of
             None \<Rightarrow> (h, Fault)
           | Some d \<Rightarrow>
               if data m = [] then (h, Throws (CvException ''!_src.empty()''))
               else if channels m \<noteq> 4 then
                 (h, Throws (CvException ''Invalid number of channels in input image''))
               else
                 (h(dst \<mapsto> \<lparr>rows = rows m, cols = cols m, channels = 1,
                             data = ocv_gray code (data m)\<rparr>), Normal)))"

definition ocv :: opencv where
  "ocv = \<lparr>getVersionString = ''4.5.0'', cvtColor = ocv_cvtColor\<rparr>"

text \<open>\<open>oom_cv\<close>: a library whose conversion throws an object that is no \<open>cv::Exception\<close>.\<close>

definition oom_cv :: opencv where
  "oom_cv = \<lparr>getVersionString = ''4.5.0'',
             cvtColor = (\<lambda>h src dst code dstCn. (h, Throws (OtherException ''std::bad_alloc'')))\<rparr>"

text \<open>
  Two worlds. In \<open>world0\<close> a 1 x 2 colour frame (a red and a blue pixel) sits at
  \<open>0x7000\<close> and a 1 x 2 gray buffer at \<open>0x7100\<close>. In \<open>world1\<close> the same frame sits
  at \<open>0x9000\<close>, the buffer at \<open>0x9100\<close> has three channels and another shape, and a
  2 x 1 gray buffer with other contents sits at \<open>0x9200\<close>; its log is not empty.
\<close>

definition frame0 :: Mat where
  "frame0 = \<lparr>rows = 1, cols = 2, channels = 4, data = [255, 0, 0, 255, 0, 0, 255, 7]\<rparr>"

definition gray0 :: Mat where
  "gray0 = \<lparr>rows = 1, cols = 2, channels = 1, data = [0, 0]\<rparr>"

definition bgr1 :: Mat where
  "bgr1 = \<lparr>rows = 1, cols = 1, channels = 3, data = [1, 2, 3]\<rparr>"

definition gray1 :: Mat where
  "gray1 = \<lparr>rows = 1, cols = 2, channels = 1, data = [200, 100]\<rparr>"

definition world0 :: world where
  "world0 = \<lparr>mats = [0x7000 \<mapsto> frame0, 0x7100 \<mapsto> gray0], trace = []\<rparr>"

definition world1 :: world where
  "world1 = \<lparr>mats = [0x9000 \<mapsto> frame0, 0x9100 \<mapsto> bgr1, 0x9200 \<mapsto> gray1],
             trace = [Logged \<lparr>prio = ANDROID_LOG_INFO, tag = TAG,
                               fmt = ''Getting OpenCV version'', args = []\<rparr>]\<rparr>"

section \<open>Properties\<close>

subsection \<open>Auxiliary facts\<close>

lemma JNI_TRUE_neq_FALSE: "JNI_TRUE \<noteq> JNI_FALSE"
  by (simp add: JNI_TRUE_def JNI_FALSE_def)

lemma logcat_append: "logcat (xs @ ys) = logcat xs @ logcat ys"
  by (induction xs rule: logcat.induct) simp_all

lemma lib_calls_append: "lib_calls (xs @ ys) = lib_calls xs @ lib_calls ys"
  by (induction xs rule: lib_calls.induct) simp_all

lemma call_cvtColor_eq:
  "call_cvtColor cv src dst code n w =
     (w\<lparr>mats := fst (cvtColor cv (mats w) src dst code n),
        trace := trace w @ [Called (Call_cvtColor src dst code n)]\<rparr>,
      snd (cvtColor cv (mats w) src dst code n))"
  by (simp add: call_cvtColor_def split: prod.split)

lemma convertToGray_Normal:
  assumes "snd (cvtColor cv (mats w) a b COLOR_RGBA2GRAY 0) = Normal"
  shows "convertToGray cv w a b =
     (w\<lparr>mats := fst (cvtColor cv (mats w) a b COLOR_RGBA2GRAY 0),
        trace := trace w @ [Called (Call_cvtColor a b COLOR_RGBA2GRAY 0)]\<rparr>,
      Returned JNI_TRUE)"
  using assms by (simp add: convertToGray_def call_cvtColor_eq)

lemma convertToGray_CvException:
  assumes "snd (cvtColor cv (mats w) a b COLOR_RGBA2GRAY 0) = Throws (CvException what)"
  shows "convertToGray cv w a b =
     (w\<lparr>mats := fst (cvtColor cv (mats w) a b COLOR_RGBA2GRAY 0),
        trace := trace w @ [Called (Call_cvtColor a b COLOR_RGBA2GRAY 0),
          Logged \<lparr>prio = ANDROID_LOG_ERROR, tag = TAG, fmt = ''OpenCV error: %s'',
                  args = [what]\<rparr>]\<rparr>,
      Returned JNI_FALSE)"
  using assms by (simp add: convertToGray_def call_cvtColor_eq LOGE_def android_log_print_def)

lemma convertToGray_OtherException:
  assumes "snd (cvtColor cv (mats w) a b COLOR_RGBA2GRAY 0) = Throws (OtherException x)"
  shows "convertToGray cv w a b =
     (w\<lparr>mats := fst (cvtColor cv (mats w) a b COLOR_RGBA2GRAY 0),
        trace := trace w @ [Called (Call_cvtColor a b COLOR_RGBA2GRAY 0)]\<rparr>,
      Propagated (OtherException x))"
  using assms by (simp add: convertToGray_def call_cvtColor_eq)

lemma convertToGray_Fault:
  assumes "snd (cvtColor cv (mats w) a b COLOR_RGBA2GRAY 0) = Fault"
  shows "convertToGray cv w a b =
     (w\<lparr>mats := fst (cvtColor cv (mats w) a b COLOR_RGBA2GRAY 0),
        trace := trace w @ [Called (Call_cvtColor a b COLOR_RGBA2GRAY 0)]\<rparr>,
      Crashed)"
  using assms by (simp add: convertToGray_def call_cvtColor_eq)

lemmas convertToGray_cases =
  convertToGray_Normal convertToGray_CvException convertToGray_OtherException convertToGray_Fault

lemma lib_outcome_cases4:
  obtains "r = Normal" | what where "r = Throws (CvException what)"
    | x where "r = Throws (OtherException x)" | "r = Fault"
proof (cases r)
  case (Throws e)
  with that show ?thesis by (cases e) auto
qed (use that in auto)

lemma convertToGray_mats:
  "mats (fst (convertToGray cv w a b)) = fst (cvtColor cv (mats w) a b COLOR_RGBA2GRAY 0)"
  by (rule lib_outcome_cases4 [of "snd (cvtColor cv (mats w) a b COLOR_RGBA2GRAY 0)"])
     (simp_all add: convertToGray_cases)

lemma convertToGray_lib_calls:
  "lib_calls (trace (fst (convertToGray cv w a b))) =
     lib_calls (trace w) @ [Call_cvtColor a b COLOR_RGBA2GRAY 0]"
  by (rule lib_outcome_cases4 [of "snd (cvtColor cv (mats w) a b COLOR_RGBA2GRAY 0)"])
     (simp_all add: convertToGray_cases lib_calls_append)

lemma gray_data_length: "length (gray_data luma xs) = length xs div 4"
  by (induction luma xs rule: gray_data.induct) simp_all

lemma gray_data_nth:
  "i < length xs div 4 \<Longrightarrow>
     gray_data luma xs ! i = luma (xs ! (4 * i)) (xs ! (4 * i + 1)) (xs ! (4 * i + 2))"
proof (induction luma xs arbitrary: i rule: gray_data.induct)
  case (1 luma c0 c1 c2 c3 rest)
  show ?case
  proof (cases i)
    case 0
    then show ?thesis by simp
  next
    case (Suc j)
    with "1.prems" have "j < length rest div 4" by simp
    from "1.IH" [OF this] Suc show ?thesis
      by (simp add: numeral_eq_Suc)
  qed
qed simp_all

lemma gray_data_rgba_bytes:
  "gray_data luma (rgba_bytes ps) = map (\<lambda>(r, g, b, a). luma r g b) ps"
  by (induction ps rule: rgba_bytes.induct) simp_all

lemma gray_data_bgra_bytes:
  "gray_data luma (bgra_bytes ps) = map (\<lambda>(r, g, b, a). luma b g r) ps"
  by (induction ps rule: bgra_bytes.induct) simp_all

lemma contract_call:
  assumes "cvtColor_contract cv luma" "mats w src = Some m" "mats w dst = Some d"
    "is_rgba m" "fits_gray m d"
  shows "cvtColor cv (mats w) src dst COLOR_RGBA2GRAY 0 =
           ((mats w)(dst \<mapsto> d\<lparr>data := gray_data luma (data m)\<rparr>), Normal)"
  using assms unfolding cvtColor_contract_def by blast

lemma contract_convertToGray:
  assumes "cvtColor_contract cv luma" "mats w src = Some m" "mats w dst = Some d"
    "is_rgba m" "fits_gray m d"
  shows "convertToGray cv w src dst =
     (w\<lparr>mats := (mats w)(dst \<mapsto> d\<lparr>data := gray_data luma (data m)\<rparr>),
        trace := trace w @ [Called (Call_cvtColor src dst COLOR_RGBA2GRAY 0)]\<rparr>,
      Returned JNI_TRUE)"
  using contract_call [OF assms] by (simp add: convertToGray_Normal)

lemma ocv_meets_contract: "cvtColor_contract ocv ocv_luma"
  unfolding cvtColor_contract_def
proof (intro allI impI)
  fix h :: heap and src dst m d
  assume a: "h src = Some m \<and> h dst = Some d \<and> is_rgba m \<and> fits_gray m d"
  then have ne: "data m \<noteq> []" and ch: "channels m = 4"
    by (auto simp: is_rgba_def)
  from a have "\<lparr>rows = rows m, cols = cols m, channels = 1, data = gray_data ocv_luma (data m)\<rparr>
      = d\<lparr>data := gray_data ocv_luma (data m)\<rparr>"
    by (cases d) (simp add: fits_gray_def)
  with a ne ch show "cvtColor ocv h src dst COLOR_RGBA2GRAY 0 =
      (h(dst \<mapsto> d\<lparr>data := gray_data ocv_luma (data m)\<rparr>), Normal)"
    by (simp add: ocv_def ocv_cvtColor_def ocv_gray_def)
qed

lemma ocv_writes_dst_only: "cvtColor_writes_dst_only ocv"
  by (simp add: cvtColor_writes_dst_only_def ocv_def ocv_cvtColor_def split: option.split)

lemma getOpenCVVersion_eq:
  "getOpenCVVersion cv w =
     (w\<lparr>trace := trace w @
        [Logged \<lparr>prio = ANDROID_LOG_INFO, tag = TAG, fmt = ''Getting OpenCV version'', args = []\<rparr>,
         Called Call_getVersionString,
         Logged \<lparr>prio = ANDROID_LOG_INFO, tag = TAG, fmt = ''OpenCV version: %s'',
                 args = [c_str (getVersionString cv)]\<rparr>]\<rparr>,
      c_str (getVersionString cv))"
  by (simp add: getOpenCVVersion_def LOGI_def android_log_print_def call_getVersionString_def
      NewStringUTF_def)

lemma c_str_no_NUL: "CHR 0x00 \<notin> set s \<Longrightarrow> c_str s = s"
  by (induction s) (auto simp: c_str_def)

lemma c_str_nonempty: "s \<noteq> [] \<Longrightarrow> hd s \<noteq> CHR 0x00 \<Longrightarrow> c_str s \<noteq> []"
  by (cases s) (simp_all add: c_str_def)

lemmas sample_defs =
  ocv_def ocv_cvtColor_def ocv_gray_def ocv_luma_def oom_cv_def
  world0_def world1_def frame0_def gray0_def bgr1_def gray1_def
  is_rgba_def fits_gray_def

subsection \<open>The exception handler of \<open>convertToGray\<close>\<close>

text \<open>
  Claim C1, as the code has it. When the conversion returns, \<open>convertToGray\<close> returns
  \<open>JNI_TRUE\<close>. When the conversion throws a \<open>cv::Exception\<close>, the handler catches it and
  \<open>convertToGray\<close> returns \<open>JNI_FALSE\<close>: no \<open>cv::Exception\<close> ever leaves the function. An
  object of another type is not caught by \<open>catch (cv::Exception &e)\<close> and leaves the
  function as it was thrown.
\<close>

theorem convertToGray_catches_cv_exception:
  "(snd (cvtColor cv (mats w) a b COLOR_RGBA2GRAY 0) = Normal \<longrightarrow>
      snd (convertToGray cv w a b) = Returned JNI_TRUE) \<and>
   (\<forall>what. snd (cvtColor cv (mats w) a b COLOR_RGBA2GRAY 0) = Throws (CvException what) \<longrightarrow>
      snd (convertToGray cv w a b) = Returned JNI_FALSE) \<and>
   (\<forall>x. snd (cvtColor cv (mats w) a b COLOR_RGBA2GRAY 0) = Throws (OtherException x) \<longrightarrow>
      snd (convertToGray cv w a b) = Propagated (OtherException x)) \<and>
   (\<forall>what. snd (convertToGray cv w a b) \<noteq> Propagated (CvException what))"
  by (rule lib_outcome_cases4 [of "snd (cvtColor cv (mats w) a b COLOR_RGBA2GRAY 0)"])
     (simp_all add: convertToGray_cases)

theorem convertToGray_catches_cv_exception_witness:
  "snd (convertToGray ocv world0 0x7000 0x7100) = Returned JNI_TRUE \<and>
   snd (convertToGray ocv world0 0x7100 0x7000) = Returned JNI_FALSE \<and>
   snd (convertToGray oom_cv world0 0x7000 0x7100) = Propagated (OtherException ''std::bad_alloc'')"
  using convertToGray_catches_cv_exception [of ocv world0 "0x7000" "0x7100"]
    convertToGray_catches_cv_exception [of ocv world0 "0x7100" "0x7000"]
    convertToGray_catches_cv_exception [of oom_cv world0 "0x7000" "0x7100"]
  by (simp add: sample_defs)

text \<open>
  C1 as it is worded (any exception is caught) fails: an exception that is not a
  \<open>cv::Exception\<close> crosses the boundary.
\<close>

theorem convertToGray_other_exception_counterexample:
  "snd (cvtColor oom_cv (mats world0) 0x7000 0x7100 COLOR_RGBA2GRAY 0) =
     Throws (OtherException ''std::bad_alloc'') \<and>
   snd (convertToGray oom_cv world0 0x7000 0x7100) = Propagated (OtherException ''std::bad_alloc'')"
  by (simp add: convertToGray_def call_cvtColor_def sample_defs)

subsection \<open>The result of a conversion\<close>

text \<open>
  Claim C2. With a library that keeps the contract of the conversion, a call on a
  four-channel source and a one-channel destination of the same shape returns
  \<open>JNI_TRUE\<close>, and afterwards the destination holds the luma transform of the source:
  one element per pixel, computed from the first three channels of that pixel.
\<close>

theorem convertToGray_writes_luma:
  assumes "cvtColor_contract cv luma"
    and "mats w src = Some m" and "mats w dst = Some d"
    and "is_rgba m" and "fits_gray m d"
  shows "snd (convertToGray cv w src dst) = Returned JNI_TRUE \<and>
    mats (fst (convertToGray cv w src dst)) dst = Some (d\<lparr>data := gray_data luma (data m)\<rparr>) \<and>
    length (gray_data luma (data m)) = rows m * cols m \<and>
    (\<forall>i < rows m * cols m.
       gray_data luma (data m) ! i =
         luma (data m ! (4 * i)) (data m ! (4 * i + 1)) (data m ! (4 * i + 2)))"
proof -
  from assms(4) have len: "length (data m) div 4 = rows m * cols m"
    by (simp add: is_rgba_def)
  show ?thesis
    using len by (simp add: contract_convertToGray [OF assms] gray_data_length gray_data_nth)
qed

theorem convertToGray_writes_luma_witness:
  "snd (convertToGray ocv world0 0x7000 0x7100) = Returned JNI_TRUE \<and>
   mats (fst (convertToGray ocv world0 0x7000 0x7100)) 0x7100 =
     Some \<lparr>rows = 1, cols = 2, channels = 1, data = [76, 29]\<rparr>"
proof -
  have "mats world0 0x7000 = Some frame0" "mats world0 0x7100 = Some gray0"
    "is_rgba frame0" "fits_gray frame0 gray0"
    by (simp_all add: sample_defs)
  from convertToGray_writes_luma [OF ocv_meets_contract this]
  show ?thesis by (simp add: sample_defs)
qed

text \<open>
  Claim C3, as the code has it. The bridge does not look at the destination:
  \<open>convertToGray\<close> returns \<open>JNI_FALSE\<close> exactly when the conversion throws a
  \<open>cv::Exception\<close>, whatever the shape of the destination.
\<close>

theorem convertToGray_false_iff_cv_exception:
  "snd (convertToGray cv w a b) = Returned JNI_FALSE \<longleftrightarrow>
     (\<exists>what. snd (cvtColor cv (mats w) a b COLOR_RGBA2GRAY 0) = Throws (CvException what))"
  by (rule lib_outcome_cases4 [of "snd (cvtColor cv (mats w) a b COLOR_RGBA2GRAY 0)"])
     (simp_all add: convertToGray_cases JNI_TRUE_neq_FALSE)

theorem convertToGray_false_iff_cv_exception_witness:
  "snd (convertToGray ocv world1 0x9100 0x9200) = Returned JNI_FALSE \<and>
   snd (cvtColor ocv (mats world1) 0x9100 0x9200 COLOR_RGBA2GRAY 0) =
     Throws (CvException ''Invalid number of channels in input image'')"
  using convertToGray_false_iff_cv_exception [of ocv world1 "0x9100" "0x9200"]
  by (simp add: sample_defs)

text \<open>
  C3 as it is worded (a destination of the wrong shape or channel count yields false)
  fails with a library that recreates its output: the call returns \<open>JNI_TRUE\<close>.
\<close>

theorem convertToGray_mismatched_counterexample:
  "mats world1 0x9000 = Some frame0 \<and> is_rgba frame0 \<and>
   mats world1 0x9100 = Some bgr1 \<and> \<not> fits_gray frame0 bgr1 \<and>
   snd (convertToGray ocv world1 0x9000 0x9100) = Returned JNI_TRUE"
  by (simp add: convertToGray_def call_cvtColor_def sample_defs)

text \<open>
  Claim C4. With a library that keeps the contract, two calls whose sources hold the same
  elements leave the same elements in their destinations, whatever else differs between
  the two calls: the addresses, the former contents of the destination, the other
  buffers, the log.
\<close>

theorem convertToGray_deterministic:
  assumes "cvtColor_contract cv luma"
    and "mats w1 s1 = Some m1" and "mats w1 d1 = Some g1" and "is_rgba m1" and "fits_gray m1 g1"
    and "mats w2 s2 = Some m2" and "mats w2 d2 = Some g2" and "is_rgba m2" and "fits_gray m2 g2"
    and "data m1 = data m2"
  shows "snd (convertToGray cv w1 s1 d1) = Returned JNI_TRUE \<and>
    snd (convertToGray cv w2 s2 d2) = Returned JNI_TRUE \<and>
    map_option data (mats (fst (convertToGray cv w1 s1 d1)) d1) =
      map_option data (mats (fst (convertToGray cv w2 s2 d2)) d2)"
  using assms(10)
  by (simp add: contract_convertToGray [OF assms(1-5)] contract_convertToGray [OF assms(1,6-9)])

theorem convertToGray_deterministic_witness:
  "mats world0 0x7100 \<noteq> mats world1 0x9200 \<and> trace world0 \<noteq> trace world1 \<and>
   map_option data (mats (fst (convertToGray ocv world0 0x7000 0x7100)) 0x7100) =
     map_option data (mats (fst (convertToGray ocv world1 0x9000 0x9200)) 0x9200)"
proof -
  have a: "mats world0 0x7000 = Some frame0" "mats world0 0x7100 = Some gray0"
    "is_rgba frame0" "fits_gray frame0 gray0"
    and b: "mats world1 0x9000 = Some frame0" "mats world1 0x9200 = Some gray1"
    "is_rgba frame0" "fits_gray frame0 gray1"
    by (simp_all add: sample_defs)
  from convertToGray_deterministic [OF ocv_meets_contract a b]
  show ?thesis by (simp add: sample_defs)
qed

subsection \<open>What the bridge checks, and what it writes\<close>

text \<open>
  Claim C6. \<open>convertToGray\<close> validates nothing before it calls the library. For every
  pair of numbers, allocated or not, distinct or not, it makes exactly one library call,
  the conversion on these two addresses; the heap it leaves is the heap the library
  leaves; and it returns \<open>JNI_TRUE\<close> exactly when the library returns, and faults
  exactly when the library faults. The library's outcome is the only failure detection.
\<close>

theorem convertToGray_no_validation:
  "lib_calls (trace (fst (convertToGray cv w a b))) =
     lib_calls (trace w) @ [Call_cvtColor a b COLOR_RGBA2GRAY 0] \<and>
   mats (fst (convertToGray cv w a b)) = fst (cvtColor cv (mats w) a b COLOR_RGBA2GRAY 0) \<and>
   (snd (convertToGray cv w a b) = Returned JNI_TRUE \<longleftrightarrow>
      snd (cvtColor cv (mats w) a b COLOR_RGBA2GRAY 0) = Normal) \<and>
   (snd (convertToGray cv w a b) = Crashed \<longleftrightarrow>
      snd (cvtColor cv (mats w) a b COLOR_RGBA2GRAY 0) = Fault)"
  by (rule lib_outcome_cases4 [of "snd (cvtColor cv (mats w) a b COLOR_RGBA2GRAY 0)"])
     (simp_all add: convertToGray_cases lib_calls_append JNI_TRUE_neq_FALSE [symmetric])

theorem convertToGray_no_validation_witness:
  "mats world0 0 = None \<and>
   lib_calls (trace (fst (convertToGray ocv world0 0 0))) = [Call_cvtColor 0 0 COLOR_RGBA2GRAY 0] \<and>
   snd (convertToGray ocv world0 0 0) = Crashed \<and>
   lib_calls (trace (fst (convertToGray ocv world0 0x7000 0x7000))) =
     [Call_cvtColor 0x7000 0x7000 COLOR_RGBA2GRAY 0] \<and>
   snd (convertToGray ocv world0 0x7000 0x7000) = Returned JNI_TRUE"
  using convertToGray_no_validation [of ocv world0 0 0]
    convertToGray_no_validation [of ocv world0 "0x7000" "0x7000"]
  by (simp add: sample_defs)

text \<open>
  Claim C7. When the conversion throws a \<open>cv::Exception\<close>, \<open>convertToGray\<close> adds exactly
  one entry to the log, of priority error, whose text is \<open>OpenCV error: \<close> followed by
  the message of the exception; the caller gets \<open>JNI_FALSE\<close> and nothing of the message.
\<close>

theorem convertToGray_logs_cv_exception:
  assumes "snd (cvtColor cv (mats w) a b COLOR_RGBA2GRAY 0) = Throws (CvException what)"
  shows "logcat (trace (fst (convertToGray cv w a b))) =
       logcat (trace w) @
         [\<lparr>prio = ANDROID_LOG_ERROR, tag = TAG, fmt = ''OpenCV error: %s'', args = [what]\<rparr>] \<and>
     entry_text (last (logcat (trace (fst (convertToGray cv w a b))))) =
       ''OpenCV error: '' @ what \<and>
     snd (convertToGray cv w a b) = Returned JNI_FALSE"
  by (simp add: convertToGray_CvException [OF assms] logcat_append entry_text_def)

theorem convertToGray_logs_cv_exception_witness:
  "map entry_text (logcat (trace (fst (convertToGray ocv world0 0x7100 0x7000)))) =
     [''OpenCV error: Invalid number of channels in input image''] \<and>
   map prio (logcat (trace (fst (convertToGray ocv world0 0x7100 0x7000)))) = [ANDROID_LOG_ERROR] \<and>
   snd (convertToGray ocv world0 0x7100 0x7000) = Returned JNI_FALSE"
proof -
  have "snd (cvtColor ocv (mats world0) 0x7100 0x7000 COLOR_RGBA2GRAY 0) =
      Throws (CvException ''Invalid number of channels in input image'')"
    by (simp add: sample_defs)
  from convertToGray_logs_cv_exception [OF this]
  show ?thesis by (simp add: sample_defs entry_text_def)
qed

text \<open>
  Claim C9. With a library whose conversion writes through its output argument only, a
  call on two distinct addresses leaves the source as it was, whatever the call returns;
  every buffer but the destination is unchanged, and the bridge makes no other library
  call than the conversion.
\<close>

theorem convertToGray_source_unchanged:
  assumes "cvtColor_writes_dst_only cv" and "a \<noteq> b"
  shows "mats (fst (convertToGray cv w a b)) a = mats w a \<and>
    (\<forall>x. x \<noteq> b \<longrightarrow> mats (fst (convertToGray cv w a b)) x = mats w x) \<and>
    lib_calls (trace (fst (convertToGray cv w a b))) =
      lib_calls (trace w) @ [Call_cvtColor a b COLOR_RGBA2GRAY 0]"
  using assms unfolding cvtColor_writes_dst_only_def
  by (simp add: convertToGray_mats convertToGray_lib_calls)

theorem convertToGray_source_unchanged_witness:
  "snd (convertToGray ocv world0 0x7000 0x7100) = Returned JNI_TRUE \<and>
   mats (fst (convertToGray ocv world0 0x7000 0x7100)) 0x7000 = Some frame0 \<and>
   snd (convertToGray ocv world0 0x7100 0x7000) = Returned JNI_FALSE \<and>
   mats (fst (convertToGray ocv world0 0x7100 0x7000)) 0x7100 = Some gray0"
proof -
  have ne: "(0x7000 :: jlong) \<noteq> 0x7100" "(0x7100 :: jlong) \<noteq> 0x7000" by simp_all
  from convertToGray_source_unchanged [OF ocv_writes_dst_only ne(1), of world0]
    convertToGray_source_unchanged [OF ocv_writes_dst_only ne(2), of world0]
  show ?thesis by (simp add: sample_defs convertToGray_def call_cvtColor_def)
qed

text \<open>
  Claim C10. The conversion is always called in mode \<open>COLOR_RGBA2GRAY\<close>, whatever the
  buffers hold and whatever the caller passes. With a library that keeps the contract,
  the intensity of a pixel is the luma of its first, second and third channel, taken as
  red, green and blue; the fourth channel does not enter. Data in the order blue, green,
  red, alpha is converted all the same, with \<open>JNI_TRUE\<close>, the red weight applied to blue
  and the blue weight to red.
\<close>

theorem convertToGray_fixed_rgba_mode:
  "lib_calls (trace (fst (convertToGray cv w src dst))) =
     lib_calls (trace w) @ [Call_cvtColor src dst COLOR_RGBA2GRAY 0] \<and>
   (cvtColor_contract cv luma \<and> mats w src = Some m \<and> mats w dst = Some d \<and>
    is_rgba m \<and> fits_gray m d \<longrightarrow>
      (data m = rgba_bytes ps \<longrightarrow>
         snd (convertToGray cv w src dst) = Returned JNI_TRUE \<and>
         map_option data (mats (fst (convertToGray cv w src dst)) dst) =
           Some (map (\<lambda>(r, g, b, a). luma r g b) ps)) \<and>
      (data m = bgra_bytes ps \<longrightarrow>
         snd (convertToGray cv w src dst) = Returned JNI_TRUE \<and>
         map_option data (mats (fst (convertToGray cv w src dst)) dst) =
           Some (map (\<lambda>(r, g, b, a). luma b g r) ps)))"
  by (auto simp: convertToGray_lib_calls contract_convertToGray
      gray_data_rgba_bytes gray_data_bgra_bytes)

theorem convertToGray_fixed_rgba_mode_witness:
  "data frame0 = rgba_bytes [(255, 0, 0, 255), (0, 0, 255, 7)] \<and>
   data frame0 = bgra_bytes [(0, 0, 255, 255), (255, 0, 0, 7)] \<and>
   snd (convertToGray ocv world0 0x7000 0x7100) = Returned JNI_TRUE \<and>
   map_option data (mats (fst (convertToGray ocv world0 0x7000 0x7100)) 0x7100) =
     Some [ocv_luma 255 0 0, ocv_luma 0 0 255] \<and>
   ocv_luma 255 0 0 = 76 \<and> ocv_luma 0 0 255 = 29"
proof -
  have a: "cvtColor_contract ocv ocv_luma \<and> mats world0 0x7000 = Some frame0 \<and>
    mats world0 0x7100 = Some gray0 \<and> is_rgba frame0 \<and> fits_gray frame0 gray0"
    by (simp add: ocv_meets_contract) (simp add: sample_defs)
  have b: "data frame0 = rgba_bytes [(255, 0, 0, 255), (0, 0, 255, 7)]"
    "data frame0 = bgra_bytes [(0, 0, 255, 255), (255, 0, 0, 7)]"
    by (simp_all add: frame0_def)
  from convertToGray_fixed_rgba_mode [of ocv world0 "0x7000" "0x7100" ocv_luma frame0 gray0
      "[(0, 0, 255, 255), (255, 0, 0, 7)]"] a b
  show ?thesis by (simp add: ocv_luma_def)
qed

subsection \<open>The version query\<close>

text \<open>
  Claim C5. \<open>getOpenCVVersion\<close> returns the same string on a second call, and in any
  world; it leaves the heap of buffers as it was; and the string is not empty when the
  library's version string begins with a character other than NUL.
\<close>

theorem getOpenCVVersion_stable:
  "snd (getOpenCVVersion cv (fst (getOpenCVVersion cv w))) = snd (getOpenCVVersion cv w) \<and>
   snd (getOpenCVVersion cv w') = snd (getOpenCVVersion cv w) \<and>
   mats (fst (getOpenCVVersion cv w)) = mats w \<and>
   (getVersionString cv \<noteq> [] \<and> hd (getVersionString cv) \<noteq> CHR 0x00 \<longrightarrow>
      snd (getOpenCVVersion cv w) \<noteq> [])"
  by (simp add: getOpenCVVersion_eq c_str_nonempty)

theorem getOpenCVVersion_stable_witness:
  "getVersionString ocv \<noteq> [] \<and> hd (getVersionString ocv) \<noteq> CHR 0x00 \<and>
   snd (getOpenCVVersion ocv world0) = ''4.5.0'' \<and>
   snd (getOpenCVVersion ocv (fst (getOpenCVVersion ocv world0))) = ''4.5.0'' \<and>
   mats (fst (getOpenCVVersion ocv world0)) = mats world0"
  using getOpenCVVersion_stable [of ocv world0 world0]
  by (simp add: getOpenCVVersion_eq c_str_def ocv_def)

text \<open>
  Claim C8. \<open>getOpenCVVersion\<close> takes no argument from its caller. It writes one
  informational entry, queries the library, writes a second informational entry with
  the version, and returns the version as a C string: the library's version string up to
  its first NUL, which is the whole string when it holds none.
\<close>

theorem getOpenCVVersion_logs_and_returns:
  "trace (fst (getOpenCVVersion cv w)) = trace w @
     [Logged \<lparr>prio = ANDROID_LOG_INFO, tag = TAG, fmt = ''Getting OpenCV version'', args = []\<rparr>,
      Called Call_getVersionString,
      Logged \<lparr>prio = ANDROID_LOG_INFO, tag = TAG, fmt = ''OpenCV version: %s'',
              args = [c_str (getVersionString cv)]\<rparr>] \<and>
   snd (getOpenCVVersion cv w) = c_str (getVersionString cv) \<and>
   (CHR 0x00 \<notin> set (getVersionString cv) \<longrightarrow>
      snd (getOpenCVVersion cv w) = getVersionString cv)"
  by (simp add: getOpenCVVersion_eq c_str_no_NUL)

theorem getOpenCVVersion_logs_and_returns_witness:
  "CHR 0x00 \<notin> set (getVersionString ocv) \<and>
   snd (getOpenCVVersion ocv world0) = getVersionString ocv \<and>
   map entry_text (logcat (trace (fst (getOpenCVVersion ocv world0)))) =
     [''Getting OpenCV version'', ''OpenCV version: 4.5.0''] \<and>
   lib_calls (trace (fst (getOpenCVVersion ocv world0))) = [Call_getVersionString]"
  using getOpenCVVersion_logs_and_returns [of ocv world0]
  by (simp add: sample_defs entry_text_def c_str_def)

end
